theory Spec2Isabelle
  imports Complex_Main
begin

section \<open>JavaScript strings\<close>

text \<open>
  A JavaScript string is a sequence of UTF-16 code units. The model is \<^typ>\<open>string\<close>, read
  as the code units 0 to 255 (ASCII and Latin-1). On that range \<open>trim\<close> removes the code
  units 9 to 13, 32 and 160 from both ends, and \<open>toUpperCase\<close> maps \<open>a\<close>-\<open>z\<close> to
  \<open>A\<close>-\<open>Z\<close>, the sharp s (223) to the two units \<open>SS\<close>, and the accented lower-case
  letters 224 to 254 (but not the division sign 247) to the unit 32 below. The micro sign
  (181) and y with diaeresis (255) have upper-case forms beyond 255 that are no ASCII
  letters; the model leaves them as they are, which no function below can tell apart.
\<close>

definition is_js_whitespace :: "char \<Rightarrow> bool" where
  "is_js_whitespace c = (of_char c \<in> {9, 10, 11, 12, 13, 32, 160 :: nat})"

definition js_trim :: "string \<Rightarrow> string" where
  "js_trim s = rev (dropWhile is_js_whitespace (rev (dropWhile is_js_whitespace s)))"

definition is_upper_ascii :: "char \<Rightarrow> bool" where
  "is_upper_ascii c = (65 \<le> (of_char c :: nat) \<and> (of_char c :: nat) \<le> 90)"

definition is_lower_ascii :: "char \<Rightarrow> bool" where
  "is_lower_ascii c = (97 \<le> (of_char c :: nat) \<and> (of_char c :: nat) \<le> 122)"

definition is_ascii_letter :: "char \<Rightarrow> bool" where
  "is_ascii_letter c = (is_upper_ascii c \<or> is_lower_ascii c)"

definition is_ascii_digit :: "char \<Rightarrow> bool" where
  "is_ascii_digit c = (48 \<le> (of_char c :: nat) \<and> (of_char c :: nat) \<le> 57)"

definition upper_units :: "char \<Rightarrow> string" where
  "upper_units c =
     (let n = of_char c :: nat in
      if 97 \<le> n \<and> n \<le> 122 then [char_of (n - 32)]
      else if n = 223 then ''SS''
      else if 224 \<le> n \<and> n \<le> 254 \<and> n \<noteq> 247 then [char_of (n - 32)]
      else [c])"

definition toUpperCase :: "string \<Rightarrow> string" where
  "toUpperCase s = concat (map upper_units s)"

text \<open>
  The code units whose upper-case form starts with an ASCII letter: the ASCII letters and
  the sharp s.
\<close>

definition starts_letter :: "char \<Rightarrow> bool" where
  "starts_letter c = (is_ascii_letter c \<or> of_char c = (223::nat))"

text \<open>\<open>s.replace(/[^A-Z]/g, "")\<close> deletes every code unit outside \<open>A\<close>-\<open>Z\<close>.\<close>

definition replace_non_AZ :: "string \<Rightarrow> string" where
  "replace_non_AZ s = filter is_upper_ascii s"

text \<open>\<open>s.replace(/[^0-9]/g, "")\<close> deletes every code unit outside \<open>0\<close>-\<open>9\<close>.\<close>

definition replace_non_digits :: "string \<Rightarrow> string" where
  "replace_non_digits s = filter is_ascii_digit s"

text \<open>\<open>s.charAt(i)\<close> is the empty string when \<open>i\<close> is out of range.\<close>

definition charAt :: "string \<Rightarrow> nat \<Rightarrow> string" where
  "charAt s i = (if i < length s then [s ! i] else [])"

text \<open>A share code is a string of exactly 6 ASCII digits.\<close>

definition is_code :: "string \<Rightarrow> bool" where
  "is_code s = (length s = 6 \<and> list_all is_ascii_digit s)"

section \<open>Workspace.js: normalizeLetter\<close>

text \<open>
  \<^verbatim>\<open>String(str || "").trim().toUpperCase().replace(/[^A-Z]/g, "").charAt(0)\<close>.
  On a string argument \<open>String(str || "")\<close> is the argument itself (the empty string is
  the only falsy string and is replaced by the empty string).
\<close>

definition normalizeLetter :: "string \<Rightarrow> string" where
  "normalizeLetter str = charAt (replace_non_AZ (toUpperCase (js_trim str))) 0"

text \<open>
  The normalization as the specification words it: trim, upper-case, strip every
  character that is not an ASCII letter, keep the first character if there is one.
\<close>

definition spec_normalize :: "string \<Rightarrow> string" where
  "spec_normalize s =
     (case filter is_ascii_letter (toUpperCase (js_trim s)) of
        [] \<Rightarrow> []
      | c # _ \<Rightarrow> [c])"

text \<open>
  \<open>x || d\<close> on a value that is a string, \<open>null\<close> or \<open>undefined\<close>: the default is taken
  when the value is absent or the empty string. \<open>None\<close> stands for \<open>null\<close> and
  \<open>undefined\<close>.
\<close>

definition truthy :: "string option \<Rightarrow> bool" where
  "truthy x = (case x of None \<Rightarrow> False | Some s \<Rightarrow> s \<noteq> [])"

definition or_else :: "string option \<Rightarrow> string \<Rightarrow> string" where
  "or_else x d = (if truthy x then the x else d)"

section \<open>Workspace.js: QuizItem\<close>

text \<open>
  A quiz question as the component reads it: \<open>q.question\<close>, \<open>q.options\<close>, \<open>q.answer\<close>.
  An absent \<open>q.options\<close> renders no button and is the empty list here; an absent
  \<open>q.answer\<close> normalizes like the empty string.
\<close>

record quiz_question =
  q_question :: string
  q_options :: "string list"
  q_answer :: string

definition isCorrect :: "quiz_question \<Rightarrow> string \<Rightarrow> bool" where
  "isCorrect q opt = (normalizeLetter opt = normalizeLetter (q_answer q))"

text \<open>
  \<open>String.fromCharCode(65 + i)\<close>, the label drawn beside option \<open>i\<close>. The model
  is the source's label for \<open>i < 191\<close>, where the code unit stays below 256.
\<close>

definition optionLabel :: "nat \<Rightarrow> string" where
  "optionLabel i = [char_of (65 + i)]"

text \<open>
  The component's state is \<open>selected\<close> (\<open>null\<close> at first). The calls of the
  \<open>onAnswered\<close> callback are recorded in order in \<open>answered_calls\<close>; the parent always
  passes a function, so the \<open>typeof\<close> test is true.
\<close>

record quiz_item =
  selected :: "string option"
  answered_calls :: "bool list"

definition initial_item :: quiz_item where
  "initial_item = \<lparr>selected = None, answered_calls = []\<rparr>"

definition handleClick :: "quiz_question \<Rightarrow> string \<Rightarrow> quiz_item \<Rightarrow> quiz_item" where
  "handleClick q opt it =
     (if truthy (selected it) then it
      else \<lparr>selected = Some opt, answered_calls = answered_calls it @ [isCorrect q opt]\<rparr>)"

text \<open>A sequence of clicks on the buttons of one question, each on an option text.\<close>

fun clicks :: "quiz_question \<Rightarrow> string list \<Rightarrow> quiz_item \<Rightarrow> quiz_item" where
  "clicks q [] it = it"
| "clicks q (opt # opts) it = clicks q opts (handleClick q opt it)"

section \<open>Workspace.js: the component state and its handlers\<close>

text \<open>
  The state hooks of \<open>Workspace\<close> that the handlers below read or write, with their
  \<open>useState\<close> initial values, and the \<open>selectedDocId\<close> prop. Loading flags, error
  banners, the active tab and the created-code display are written by the handlers too
  but never read by them; they are left out. Server replies are taken as typed the way the
  handlers use them: a text field holds a string or is absent.
\<close>

record quiz_stats =
  answered :: nat
  correct :: nat

record workspace =
  selectedDocId :: "string option"
  question :: string
  answer :: string
  summaryFocus :: string
  summary :: string
  markType :: string
  summaryMarkTypeUsed :: "string option"
  quiz :: "quiz_question list"
  quizStats :: quiz_stats
  shareCodeInput :: string

definition no_stats :: quiz_stats where
  "no_stats = \<lparr>answered = 0, correct = 0\<rparr>"

definition initial_workspace :: workspace where
  "initial_workspace =
     \<lparr>selectedDocId = None, question = [], answer = [], summaryFocus = [], summary = [],
      markType = ''2'', summaryMarkTypeUsed = None, quiz = [], quizStats = no_stats,
      shareCodeInput = []\<rparr>"

text \<open>
  The content object of a share, by the fields the client writes and reads. Every field
  may be absent in an object that comes from the server.
\<close>

datatype content =
  AskContent "string option" "string option"
| SummaryContent "string option" "string option" "string option"
| QuizContent "quiz_question list option"

fun content_question :: "content \<Rightarrow> string option" where
  "content_question (AskContent q a) = q"
| "content_question _ = None"

fun content_answer :: "content \<Rightarrow> string option" where
  "content_answer (AskContent q a) = a"
| "content_answer _ = None"

fun content_focus :: "content \<Rightarrow> string option" where
  "content_focus (SummaryContent f s m) = f"
| "content_focus _ = None"

fun content_summary :: "content \<Rightarrow> string option" where
  "content_summary (SummaryContent f s m) = s"
| "content_summary _ = None"

fun content_mark_type :: "content \<Rightarrow> string option" where
  "content_mark_type (SummaryContent f s m) = m"
| "content_mark_type _ = None"

fun content_quiz :: "content \<Rightarrow> quiz_question list option" where
  "content_quiz (QuizContent qs) = qs"
| "content_quiz _ = None"

text \<open>
  What the backend answers. \<open>NotOk detail message\<close> is a reply whose status is not
  \<open>"ok"\<close>; \<open>Threw\<close> is a rejected request (\<open>api.js\<close> throws on a failed HTTP status).
\<close>

datatype ask_reply =
  AskOk string | AskNotOk "string option" "string option" | AskThrew

datatype summarize_reply =
  SummarizeOk string "string option"
| SummarizeNotOk "string option" "string option"
| SummarizeThrew

datatype quiz_reply =
  QuizOk "quiz_question list" | QuizFailed

datatype get_reply =
  GetOk "string option" "content option" | GetFailed

definition error_text :: "string option \<Rightarrow> string option \<Rightarrow> string" where
  "error_text detail message =
     ''Error: '' @ or_else detail (or_else message ''Something went wrong'')"

definition handleAsk :: "ask_reply \<Rightarrow> workspace \<Rightarrow> workspace" where
  "handleAsk r st =
     (if \<not> truthy (selectedDocId st) then st
      else if js_trim (question st) = [] then st
      else st\<lparr>answer :=
        (case r of
           AskOk a \<Rightarrow> a
         | AskNotOk detail message \<Rightarrow> error_text detail message
         | AskThrew \<Rightarrow> ''Error: Could not reach backend.'')\<rparr>)"

definition handleSummarize :: "summarize_reply \<Rightarrow> workspace \<Rightarrow> workspace" where
  "handleSummarize r st =
     (if \<not> truthy (selectedDocId st) then st
      else
        (case r of
           SummarizeOk body mark \<Rightarrow>
             st\<lparr>summary := body, summaryMarkTypeUsed := Some (or_else mark (markType st))\<rparr>
         | SummarizeNotOk detail message \<Rightarrow>
             st\<lparr>summary := error_text detail message, summaryMarkTypeUsed := None\<rparr>
         | SummarizeThrew \<Rightarrow>
             st\<lparr>summary := ''Error: Could not reach backend.'',
                summaryMarkTypeUsed := None\<rparr>))"

definition handleQuiz :: "quiz_reply \<Rightarrow> workspace \<Rightarrow> workspace" where
  "handleQuiz r st =
     (if \<not> truthy (selectedDocId st) then st
      else st\<lparr>quiz := (case r of QuizOk qs \<Rightarrow> qs | QuizFailed \<Rightarrow> []),
              quizStats := no_stats\<rparr>)"

definition handleQuizAnswered :: "bool \<Rightarrow> workspace \<Rightarrow> workspace" where
  "handleQuizAnswered is_correct st =
     st\<lparr>quizStats :=
        \<lparr>answered = answered (quizStats st) + 1,
         correct = correct (quizStats st) + (if is_correct then 1 else 0)\<rparr>\<rparr>"

definition handleResetQuiz :: "workspace \<Rightarrow> workspace" where
  "handleResetQuiz st = st\<lparr>quiz := [], quizStats := no_stats\<rparr>"

text \<open>
  \<open>handleCreateShareCode(type)\<close> up to its request: either an alert and no request, or
  the payload handed to \<open>api.shareCreate\<close>. The reply only sets the created-code display.
\<close>

record share_payload =
  p_type :: string
  p_content :: content

datatype create_outcome = CreateAlert string | CreateSubmit share_payload

definition handleCreateShareCode :: "string \<Rightarrow> workspace \<Rightarrow> create_outcome" where
  "handleCreateShareCode type st =
     (if type = ''ask'' then
        (if js_trim (answer st) = [] then
           CreateAlert ''No answer to share yet. Ask a question first.''
         else CreateSubmit \<lparr>p_type = type,
                p_content = AskContent (Some (question st)) (Some (answer st))\<rparr>)
      else if type = ''summary'' then
        (if js_trim (summary st) = [] then
           CreateAlert ''No summary to share yet. Generate a summary first.''
         else CreateSubmit \<lparr>p_type = type,
                p_content = SummaryContent (Some (summaryFocus st)) (Some (summary st))
                  (Some (or_else (summaryMarkTypeUsed st) (markType st)))\<rparr>)
      else if type = ''quiz'' then
        (if quiz st = [] then
           CreateAlert ''No quiz to share yet. Generate a quiz first.''
         else CreateSubmit \<lparr>p_type = type, p_content = QuizContent (Some (quiz st))\<rparr>)
      else CreateAlert ''Invalid share type.'')"

text \<open>
  \<open>handleLoadShareCode\<close> up to its request: either an alert and no request, or the code
  handed to \<open>api.shareGet\<close>.
\<close>

datatype load_outcome = LoadAlert string | ShareGet string

definition load_request :: "workspace \<Rightarrow> load_outcome" where
  "load_request st =
     (let code = js_trim (shareCodeInput st) in
      if code = [] then LoadAlert ''Please enter a 6-digit code.''
      else if length code \<noteq> 6 then LoadAlert ''Code must be 6 digits.''
      else ShareGet code)"

text \<open>The rest of \<open>handleLoadShareCode\<close>: what the reply to the request does to the state.\<close>

definition apply_share :: "string \<Rightarrow> content \<Rightarrow> workspace \<Rightarrow> workspace" where
  "apply_share type c st =
     (if type = ''ask'' then
        st\<lparr>question := or_else (content_question c) [],
           answer := or_else (content_answer c) []\<rparr>
      else if type = ''summary'' then
        (let m = or_else (content_mark_type c) ''2'' in
         st\<lparr>summaryFocus := or_else (content_focus c) [],
            summary := or_else (content_summary c) [],
            markType := m, summaryMarkTypeUsed := Some m\<rparr>)
      else if type = ''quiz'' then
        st\<lparr>quiz := (case content_quiz c of Some qs \<Rightarrow> qs | None \<Rightarrow> []),
           quizStats := no_stats\<rparr>
      else st)"

definition handleLoadShareCode :: "get_reply \<Rightarrow> workspace \<Rightarrow> workspace" where
  "handleLoadShareCode r st =
     (case load_request st of
        LoadAlert msg \<Rightarrow> st
      | ShareGet code \<Rightarrow>
          (case r of
             GetFailed \<Rightarrow> st
           | GetOk type c \<Rightarrow>
               (if \<not> truthy type then st
                else case c of None \<Rightarrow> st | Some c' \<Rightarrow> apply_share (the type) c' st)))"

text \<open>
  The events that change the state: the input fields' \<open>onChange\<close> handlers, the three
  mark buttons, a new \<open>selectedDocId\<close> from the parent, and the handlers above, each run
  from its call to the end of its reply as one step.
\<close>

datatype mark_button = Mark2 | Mark5 | Mark15

fun mark_literal :: "mark_button \<Rightarrow> string" where
  "mark_literal Mark2 = ''2''"
| "mark_literal Mark5 = ''5''"
| "mark_literal Mark15 = ''15''"

datatype event =
  SelectDocument "string option"
| ChangeQuestion string
| ChangeSummaryFocus string
| ClickMarkType mark_button
| ChangeShareCodeInput string
| ClickAsk ask_reply
| ClickSummarize summarize_reply
| ClickGenerateQuiz quiz_reply
| QuizAnswered bool
| ClickResetQuiz
| ClickLoadShare get_reply

fun step :: "event \<Rightarrow> workspace \<Rightarrow> workspace" where
  "step (SelectDocument d) st = st\<lparr>selectedDocId := d\<rparr>"
| "step (ChangeQuestion v) st = st\<lparr>question := v\<rparr>"
| "step (ChangeSummaryFocus v) st = st\<lparr>summaryFocus := v\<rparr>"
| "step (ClickMarkType m) st = st\<lparr>markType := mark_literal m\<rparr>"
| "step (ChangeShareCodeInput v) st = st\<lparr>shareCodeInput := replace_non_digits v\<rparr>"
| "step (ClickAsk r) st = handleAsk r st"
| "step (ClickSummarize r) st = handleSummarize r st"
| "step (ClickGenerateQuiz r) st = handleQuiz r st"
| "step (QuizAnswered b) st = handleQuizAnswered b st"
| "step (ClickResetQuiz) st = handleResetQuiz st"
| "step (ClickLoadShare r) st = handleLoadShareCode r st"

fun run :: "event list \<Rightarrow> workspace \<Rightarrow> workspace" where
  "run [] st = st"
| "run (e # es) st = run es (step e st)"

text \<open>
  The share-code field is
  \<^verbatim>\<open><input maxLength={6} value={shareCodeInput} onChange={...}>\<close>. A key typed at the end
  of the field is refused while the field holds 6 characters; otherwise the field's text
  with the key appended is the value that \<open>onChange\<close> receives. \<open>type_text\<close> types a
  text key by key.
\<close>

definition type_key :: "char \<Rightarrow> workspace \<Rightarrow> workspace" where
  "type_key c st =
     (if length (shareCodeInput st) < 6
      then step (ChangeShareCodeInput (shareCodeInput st @ [c])) st
      else st)"

fun type_text :: "string \<Rightarrow> workspace \<Rightarrow> workspace" where
  "type_text [] st = st"
| "type_text (c # cs) st = type_text cs (type_key c st)"

text \<open>
  The three mark types of the selector, \<open>["2", "5", "15"]\<close>, as a predicate on strings.
\<close>

definition valid_mark_type :: "string \<Rightarrow> bool" where
  "valid_mark_type m = (m = ''2'' \<or> m = ''5'' \<or> m = ''15'')"

text \<open>
  The client takes a mark type from the server in two places: the \<open>mark_type\<close> of a
  \<open>/summarize\<close> reply and the \<open>mark_type\<close> of a loaded share. \<open>server_marks_ok e\<close> says
  that the mark type carried by the event \<open>e\<close>, if it carries one that is not empty, is
  one of the three.
\<close>

fun server_marks_ok :: "event \<Rightarrow> bool" where
  "server_marks_ok (ClickSummarize (SummarizeOk body (Some m))) =
     (m = [] \<or> valid_mark_type m)"
| "server_marks_ok (ClickLoadShare (GetOk type (Some c))) =
     (case content_mark_type c of None \<Rightarrow> True | Some m \<Rightarrow> m = [] \<or> valid_mark_type m)"
| "server_marks_ok _ = True"

text \<open>The two state invariants used below.\<close>

definition marks_inv :: "workspace \<Rightarrow> bool" where
  "marks_inv st =
     (valid_mark_type (markType st) \<and>
      (case summaryMarkTypeUsed st of None \<Rightarrow> True | Some m \<Rightarrow> valid_mark_type m))"

definition stats_inv :: "workspace \<Rightarrow> bool" where
  "stats_inv st = (correct (quizStats st) \<le> answered (quizStats st))"

text \<open>
  \<open>quizAccuracy\<close> is \<open>Math.round((correct / answered) * 100)\<close>, guarded by
  \<open>answered > 0\<close>. The counters are JavaScript numbers that start at 0 and only grow by
  1, so they are natural numbers here. The division and the multiplication each round
  their exact result to a double; \<open>dbl\<close> is that rounding, a parameter of the model.
  \<open>Math.round\<close> is exact: the nearest integer, a half rounding up.
\<close>

definition Math_round :: "rat \<Rightarrow> int" where
  "Math_round x = \<lfloor>x + 1 / 2\<rfloor>"

definition quizAccuracy :: "(rat \<Rightarrow> rat) \<Rightarrow> workspace \<Rightarrow> int" where
  "quizAccuracy dbl st =
     (if answered (quizStats st) > 0 then
        Math_round
          (dbl (dbl (of_nat (correct (quizStats st)) / of_nat (answered (quizStats st))) * 100))
      else 0)"

section \<open>The share-code service behind \<open>/share/create\<close> and \<open>/share/get\<close>\<close>

text \<open>
  The client only calls the service (\<open>api.shareCreate\<close>, \<open>api.shareGet\<close>); the service
  itself runs in the backend, whose code is not among the sources. Its definitions below
  follow the specification, sections 3, 4 and 7.
\<close>

text \<open>Modelled from the spec: the content type tag, one of \<open>ask\<close>, \<open>summary\<close>, \<open>quiz\<close>
  (the backend's type is missing).\<close>

datatype share_type = Ask | Summary | Quiz

text \<open>Modelled from the spec: the error taxonomy of section 7 (the backend's errors are
  missing).\<close>

datatype share_error =
  ValidationError
| DuplicateCodeError
| CapacityError
| InvalidCodeFormatError
| NotFoundError
| IntegrityError

text \<open>Modelled from the spec: the ShareEntry of section 3 (the backend's record is
  missing): code, type, content and creation time.\<close>

record share_entry =
  e_code :: string
  e_type :: share_type
  e_content :: content
  e_created_at :: nat

text \<open>Modelled from the spec: the ShareStore's content, the live entries by their code
  (the backend's store is missing).\<close>

type_synonym share_store = "string \<rightharpoonup> share_entry"

text \<open>Modelled from the spec: a quiz question has at least 2 options and an answer whose
  normalized letter is the label of one of its options (the backend's validator is
  missing).\<close>

definition valid_question :: "quiz_question \<Rightarrow> bool" where
  "valid_question q =
     (2 \<le> length (q_options q) \<and>
      normalizeLetter (q_answer q) \<in> set (map optionLabel [0 ..< length (q_options q)]))"

text \<open>Modelled from the spec: PayloadValidator.validate, the table of section 4.3 (the
  backend's validator is missing). It returns the content it was given, or ValidationError.\<close>

fun validate :: "share_type \<Rightarrow> content \<Rightarrow> share_error + content" where
  "validate Ask c =
     (case c of
        AskContent (Some q) (Some a) \<Rightarrow>
          if js_trim q \<noteq> [] \<and> js_trim a \<noteq> [] then Inr c else Inl ValidationError
      | _ \<Rightarrow> Inl ValidationError)"
| "validate Summary c =
     (case c of
        SummaryContent f (Some s) m \<Rightarrow>
          if s \<noteq> [] \<and> (case m of None \<Rightarrow> True | Some l \<Rightarrow> valid_mark_type l) then Inr c
          else Inl ValidationError
      | _ \<Rightarrow> Inl ValidationError)"
| "validate Quiz c =
     (case c of
        QuizContent (Some qs) \<Rightarrow>
          if 1 \<le> length qs \<and> list_all valid_question qs then Inr c
          else Inl ValidationError
      | _ \<Rightarrow> Inl ValidationError)"

text \<open>Modelled from the spec: the 6-digit string of a random draw, leading zeros kept (the
  backend's CodeGenerator is missing). The draws are a parameter, \<open>draw k\<close> being the
  \<open>k\<close>-th number the random source gives.\<close>

definition code_of :: "nat \<Rightarrow> string" where
  "code_of n = map (\<lambda>i. char_of (48 + (n div 10 ^ i) mod 10)) [5, 4, 3, 2, 1, 0]"

text \<open>Modelled from the spec: ShareStore.put, which fails on a code that is already stored
  (the backend's store is missing).\<close>

definition put :: "share_store \<Rightarrow> share_entry \<Rightarrow> share_error + share_store" where
  "put store e =
     (if store (e_code e) \<noteq> None then Inl DuplicateCodeError
      else Inr (store(e_code e \<mapsto> e)))"

text \<open>Modelled from the spec: ShareStore.get, an exact-match lookup (the backend's store is
  missing).\<close>

definition store_get :: "share_store \<Rightarrow> string \<Rightarrow> share_error + share_entry" where
  "store_get store code = (case store code of None \<Rightarrow> Inl NotFoundError | Some e \<Rightarrow> Inr e)"

text \<open>Modelled from the spec: the retry cap, "a fixed bound, such as 20 attempts" (the
  backend's constant is missing).\<close>

definition MAX_ATTEMPTS :: nat where
  "MAX_ATTEMPTS = 20"

text \<open>Modelled from the spec: the loop of ShareService.create (the backend's service is
  missing): draw a code, check that no live entry has it, put the entry; on a collision
  or a DuplicateCodeError draw again, and give CapacityError when the attempts are used
  up. The first argument counts the attempts left, \<open>k\<close> the draws made so far; the result
  carries the number of draws made.\<close>

fun create_loop ::
  "nat \<Rightarrow> (nat \<Rightarrow> nat) \<Rightarrow> nat \<Rightarrow> share_store \<Rightarrow> (string \<Rightarrow> share_entry) \<Rightarrow>
   (share_error + string \<times> share_store) \<times> nat" where
  "create_loop 0 draw k store entry = (Inl CapacityError, k)"
| "create_loop (Suc n) draw k store entry =
     (let code = code_of (draw k) in
      if store code \<noteq> None then create_loop n draw (Suc k) store entry
      else case put store (entry code) of
             Inl e \<Rightarrow> create_loop n draw (Suc k) store entry
           | Inr store' \<Rightarrow> (Inr (code, store'), Suc k))"

text \<open>Modelled from the spec: ShareService.create (the backend's service is missing):
  validate, then the bounded loop. A validation failure makes no draw and leaves the store
  as it is.\<close>

definition create ::
  "(nat \<Rightarrow> nat) \<Rightarrow> nat \<Rightarrow> share_store \<Rightarrow> share_type \<Rightarrow> content \<Rightarrow>
   (share_error + string \<times> share_store) \<times> nat" where
  "create draw now store type c =
     (case validate type c of
        Inl e \<Rightarrow> (Inl e, 0)
      | Inr c' \<Rightarrow>
          create_loop MAX_ATTEMPTS draw 0 store
            (\<lambda>code. \<lparr>e_code = code, e_type = type, e_content = c', e_created_at = now\<rparr>))"

text \<open>Modelled from the spec: ShareService.get (the backend's service is missing): reject
  an input that is not exactly 6 digits, look the code up, validate the stored content
  again, return type and content.\<close>

definition get :: "share_store \<Rightarrow> string \<Rightarrow> share_error + share_type \<times> content" where
  "get store code =
     (if \<not> is_code code then Inl InvalidCodeFormatError
      else case store_get store code of
             Inl e \<Rightarrow> Inl e
           | Inr e \<Rightarrow>
               (case validate (e_type e) (e_content e) of
                  Inl _ \<Rightarrow> Inl IntegrityError
                | Inr c \<Rightarrow> Inr (e_type e, c)))"

section \<open>utils/storage.js\<close>

text \<open>
  \<open>localStorage\<close> either can be accessed, and is then a map from keys to strings
  (\<open>getItem\<close> of a missing key is \<open>null\<close>, \<open>removeItem\<close> deletes a key), or access
  to it is denied, and then every \<open>getItem\<close> and \<open>removeItem\<close> throws a SecurityError.
  A function that may throw returns a sum: \<open>Inl\<close> is the exception that leaves it.
  \<open>JSON.parse\<close> is a parameter: it gives the parsed value, or \<open>None\<close> where it throws a
  SyntaxError. A parsed value is a JSON value; \<open>JNull\<close> is also the \<open>null\<close> that the
  function returns for the user when it gives up.
\<close>

datatype json =
  JNull
| JBool bool
| JNum rat
| JStr string
| JArr "json list"
| JObj "(string \<times> json) list"

datatype js_error = SecurityError | SyntaxError

datatype local_storage = Accessible "string \<rightharpoonup> string" | Denied

definition getItem :: "local_storage \<Rightarrow> string \<Rightarrow> js_error + string option" where
  "getItem ls k = (case ls of Denied \<Rightarrow> Inl SecurityError | Accessible m \<Rightarrow> Inr (m k))"

definition removeItem :: "local_storage \<Rightarrow> string \<Rightarrow> js_error + local_storage" where
  "removeItem ls k =
     (case ls of
        Denied \<Rightarrow> Inl SecurityError
      | Accessible m \<Rightarrow> Inr (Accessible (m(k := None))))"

definition TOKEN_KEY :: string where
  "TOKEN_KEY = ''sca_token''"

definition USER_KEY :: string where
  "USER_KEY = ''sca_user''"

record auth =
  token :: "string option"
  user :: json

text \<open>\<open>clearAuthFromStorage\<close> has no \<open>try\<close>: an exception of \<open>removeItem\<close> leaves it.\<close>

definition clearAuthFromStorage :: "local_storage \<Rightarrow> js_error + local_storage" where
  "clearAuthFromStorage ls =
     (case removeItem ls TOKEN_KEY of
        Inl e \<Rightarrow> Inl e
      | Inr ls' \<Rightarrow> removeItem ls' USER_KEY)"

text \<open>
  The \<open>try\<close> block of \<open>loadAuthFromStorage\<close>: the value it returns, or the exception
  that takes it to the \<open>catch\<close> block. It does not write to the storage.
\<close>

definition loadAuth_try :: "(string \<Rightarrow> json option) \<Rightarrow> local_storage \<Rightarrow> js_error + auth" where
  "loadAuth_try JSON_parse ls =
     (case getItem ls TOKEN_KEY of
        Inl e \<Rightarrow> Inl e
      | Inr tok \<Rightarrow>
          (case getItem ls USER_KEY of
             Inl e \<Rightarrow> Inl e
           | Inr userStr \<Rightarrow>
               if \<not> truthy tok \<or> \<not> truthy userStr then Inr \<lparr>token = None, user = JNull\<rparr>
               else case JSON_parse (the userStr) of
                      None \<Rightarrow> Inl SyntaxError
                    | Some usr \<Rightarrow> Inr \<lparr>token = tok, user = usr\<rparr>))"

text \<open>
  The whole function: the \<open>catch\<close> block calls \<open>clearAuthFromStorage\<close> and then returns
  \<open>{token: null, user: null}\<close>; an exception of that call leaves the function. The result
  carries the storage as the call leaves it.
\<close>

definition loadAuthFromStorage ::
  "(string \<Rightarrow> json option) \<Rightarrow> local_storage \<Rightarrow> js_error + auth \<times> local_storage" where
  "loadAuthFromStorage JSON_parse ls =
     (case loadAuth_try JSON_parse ls of
        Inr a \<Rightarrow> Inr (a, ls)
      | Inl _ \<Rightarrow>
          (case clearAuthFromStorage ls of
             Inl e \<Rightarrow> Inl e
           | Inr ls' \<Rightarrow> Inr (\<lparr>token = None, user = JNull\<rparr>, ls')))"

section \<open>Properties of normalizeLetter\<close>

lemma upper_units_no_lower: "c' \<in> set (upper_units c) \<Longrightarrow> \<not> is_lower_ascii c'"
  by (auto simp: upper_units_def Let_def is_lower_ascii_def split: if_splits)

lemma toUpperCase_no_lower: "c \<in> set (toUpperCase s) \<Longrightarrow> \<not> is_lower_ascii c"
  by (auto simp: toUpperCase_def dest: upper_units_no_lower)

lemma filter_letters_upper:
  "filter is_ascii_letter (toUpperCase s) = filter is_upper_ascii (toUpperCase s)"
  by (rule filter_cong) (auto simp: is_ascii_letter_def dest: toUpperCase_no_lower)

lemma charAt_0: "charAt s 0 = (case s of [] \<Rightarrow> [] | c # _ \<Rightarrow> [c])"
  by (cases s) (simp_all add: charAt_def)

lemma filter_dropWhile_disjoint:
  "(\<And>c. W c \<Longrightarrow> \<not> Q c) \<Longrightarrow> filter Q (dropWhile W s) = filter Q s"
  by (induction s) auto

lemma filter_js_trim:
  assumes "\<And>c. is_js_whitespace c \<Longrightarrow> \<not> Q c"
  shows "filter Q (js_trim s) = filter Q s"
proof -
  have "filter Q (js_trim s) =
      rev (filter Q (dropWhile is_js_whitespace (rev (dropWhile is_js_whitespace s))))"
    by (simp add: js_trim_def rev_filter)
  also have "\<dots> = rev (filter Q (rev (dropWhile is_js_whitespace s)))"
    using assms by (simp add: filter_dropWhile_disjoint)
  also have "\<dots> = filter Q (dropWhile is_js_whitespace s)"
    by (simp add: rev_filter)
  also have "\<dots> = filter Q s"
    using assms by (simp add: filter_dropWhile_disjoint)
  finally show ?thesis .
qed

lemma upper_units_letters:
  "filter is_upper_ascii (upper_units c) = (if starts_letter c then upper_units c else [])"
  by (auto simp: upper_units_def starts_letter_def is_ascii_letter_def is_upper_ascii_def
      is_lower_ascii_def Let_def)

lemma upper_units_nonempty: "upper_units c \<noteq> []"
  by (simp add: upper_units_def Let_def)

lemma filter_toUpperCase:
  "filter is_upper_ascii (toUpperCase s) = toUpperCase (filter starts_letter s)"
  by (induction s) (simp_all add: toUpperCase_def upper_units_letters)

lemma whitespace_not_letter: "is_js_whitespace c \<Longrightarrow> \<not> starts_letter c"
  by (auto simp: is_js_whitespace_def starts_letter_def is_ascii_letter_def is_upper_ascii_def
      is_lower_ascii_def)

text \<open>
  In terms of the argument itself: the result is the upper-case form of the first letter
  of the string, wherever it stands; trimming makes no difference to it.
\<close>

lemma normalizeLetter_first_letter:
  "normalizeLetter s =
     (case filter starts_letter s of [] \<Rightarrow> [] | c # _ \<Rightarrow> [hd (upper_units c)])"
proof -
  have "replace_non_AZ (toUpperCase (js_trim s)) = toUpperCase (filter starts_letter s)"
    by (simp add: replace_non_AZ_def filter_toUpperCase filter_js_trim whitespace_not_letter)
  then show ?thesis
    by (cases "filter starts_letter s")
       (simp_all add: normalizeLetter_def charAt_def toUpperCase_def upper_units_nonempty
          hd_append hd_conv_nth [symmetric])
qed

text \<open>
  Claim C6. For every string \<open>s\<close>, \<open>normalizeLetter\<close> returns the first character of
  \<open>s\<close> trimmed, upper-cased and stripped of every character that is not an ASCII letter,
  and the empty string when no letter remains. The source filters with \<open>[^A-Z]\<close> where
  the specification says "not an ASCII letter"; the two agree because no lower-case ASCII
  letter survives \<open>toUpperCase\<close>. The example \<open>"b) second choice"\<close> gives \<open>"B"\<close>.
\<close>

theorem normalizeLetter_spec:
  "normalizeLetter s = spec_normalize s \<and> normalizeLetter ''b) second choice'' = ''B''"
proof
  show "normalizeLetter s = spec_normalize s"
    by (simp add: normalizeLetter_def spec_normalize_def replace_non_AZ_def charAt_0
        filter_letters_upper)
  show "normalizeLetter ''b) second choice'' = ''B''"
    by code_simp
qed

section \<open>Properties of QuizItem\<close>

text \<open>
  Claim C1, as stated, fails. \<open>isCorrect\<close> never looks at the index of an option: it
  compares the normalized first letter of the option's own text with the normalized stored
  answer. With the options \<open>["Stack", "Queue"]\<close> and the stored answer \<open>"b"\<close>, the
  answer normalizes to the label \<open>B\<close> of index 1, but the option at index 1 normalizes
  to \<open>Q\<close> and is judged wrong.
\<close>

theorem isCorrect_label_counterexample:
  "\<not> isCorrect
       \<lparr>q_question = ''Which one is FIFO?'', q_options = [''Stack'', ''Queue''],
        q_answer = ''b''\<rparr>
       ([''Stack'', ''Queue''] ! 1) \<and>
   normalizeLetter ''b'' = optionLabel 1"
  by code_simp

text \<open>
  Claim C1, amended. An option is judged correct exactly when the normalized first letter
  of its own text equals the normalized stored answer. Where the text of every option
  starts with its positional label (as in \<open>"A) Stack"\<close>, \<open>"B) Queue"\<close>), the option at
  index \<open>i\<close> is judged correct exactly when the normalized stored answer is the label of
  \<open>i\<close>.
\<close>

theorem isCorrect_by_option_text:
  "(isCorrect q opt \<longleftrightarrow> normalizeLetter opt = normalizeLetter (q_answer q)) \<and>
   ((\<forall>j < length (q_options q). normalizeLetter (q_options q ! j) = optionLabel j) \<and>
    i < length (q_options q) \<longrightarrow>
      (isCorrect q (q_options q ! i) \<longleftrightarrow> normalizeLetter (q_answer q) = optionLabel i))"
  by (auto simp: isCorrect_def)

theorem isCorrect_by_option_text_witness:
  "isCorrect
     \<lparr>q_question = ''Which one is FIFO?'', q_options = [''A) Stack'', ''B) Queue''],
      q_answer = ''b''\<rparr>
     ([''A) Stack'', ''B) Queue''] ! 1) \<and>
   normalizeLetter ''b'' = optionLabel 1"
proof -
  let ?q = "\<lparr>q_question = ''Which one is FIFO?'', q_options = [''A) Stack'', ''B) Queue''],
      q_answer = ''b''\<rparr>"
  have a: "normalizeLetter ''A) Stack'' = optionLabel 0" by code_simp
  have b: "normalizeLetter ''B) Queue'' = optionLabel 1" by code_simp
  have h1: "\<forall>j < length (q_options ?q). normalizeLetter (q_options ?q ! j) = optionLabel j"
    using a b by (simp add: less_Suc_eq numeral_2_eq_2)
  have h2: "1 < length (q_options ?q)" by simp
  have c: "normalizeLetter ''b'' = optionLabel 1" by code_simp
  have "isCorrect ?q (q_options ?q ! 1) \<longleftrightarrow> normalizeLetter (q_answer ?q) = optionLabel 1"
    using isCorrect_by_option_text [of ?q "[]" 1] h1 h2 by blast
  with c show ?thesis by simp
qed

lemma handleClick_locked: "truthy (selected it) \<Longrightarrow> handleClick q opt it = it"
  by (simp add: handleClick_def)

lemma clicks_locked: "truthy (selected it) \<Longrightarrow> clicks q opts it = it"
  by (induction opts) (simp_all add: handleClick_locked)

text \<open>
  After a click on an option whose text is not empty the item is locked: later clicks
  change nothing and the callback has been called exactly once.
\<close>

lemma clicks_nonempty_option_locks:
  "opt \<noteq> [] \<Longrightarrow>
   clicks q (opt # opts) initial_item =
     \<lparr>selected = Some opt, answered_calls = [isCorrect q opt]\<rparr>"
  by (simp add: clicks_locked handleClick_def initial_item_def truthy_def)

text \<open>
  Claim C9 says that after the first selection every later click is ignored. The guard
  is \<open>if (selected) return\<close>, commented "lock after first attempt", and it tests the
  truthiness of the selected text, not whether a selection was made. An option whose text
  is the empty string is selected and leaves the item unlocked: the next click replaces the
  selection and calls \<open>onAnswered\<close> a second time.
\<close>

theorem quiz_item_empty_option_not_locked:
  "clicks
     \<lparr>q_question = ''Which one is FIFO?'', q_options = ['''', ''B) Queue''],
      q_answer = ''b''\<rparr>
     ['''', ''B) Queue''] initial_item =
   \<lparr>selected = Some ''B) Queue'', answered_calls = [False, True]\<rparr>"
  by code_simp

section \<open>Properties of the Workspace handlers\<close>

subsection \<open>The share-code field\<close>

lemma digit_not_whitespace: "is_ascii_digit c \<Longrightarrow> \<not> is_js_whitespace c"
  by (auto simp: is_ascii_digit_def is_js_whitespace_def)

lemma js_trim_no_whitespace:
  assumes "\<forall>c \<in> set s. \<not> is_js_whitespace c"
  shows "js_trim s = s"
proof -
  have front: "dropWhile is_js_whitespace s = s"
    using assms by (cases s) simp_all
  have rear: "dropWhile is_js_whitespace (rev s) = rev s"
    using assms by (cases "rev s") (simp, metis dropWhile.simps(2) list.set_intros(1) set_rev)
  show ?thesis by (simp add: js_trim_def front rear)
qed

lemma js_trim_digits: "list_all is_ascii_digit s \<Longrightarrow> js_trim s = s"
  by (rule js_trim_no_whitespace) (auto simp: list_all_iff dest: digit_not_whitespace)

text \<open>
  Only the field's \<open>onChange\<close> writes \<open>shareCodeInput\<close>, and it deletes every
  character that is not a digit: the field holds digits only in every reachable state.
\<close>

lemma step_shareCodeInput_digits:
  "list_all is_ascii_digit (shareCodeInput st) \<Longrightarrow>
   list_all is_ascii_digit (shareCodeInput (step e st))"
  by (cases e)
    (auto simp: handleAsk_def handleSummarize_def handleQuiz_def handleQuizAnswered_def
      handleResetQuiz_def handleLoadShareCode_def apply_share_def replace_non_digits_def
      list_all_iff Let_def
      split: load_outcome.splits get_reply.splits option.splits summarize_reply.splits)

lemma run_shareCodeInput_digits:
  "list_all is_ascii_digit (shareCodeInput st) \<Longrightarrow>
   list_all is_ascii_digit (shareCodeInput (run es st))"
  by (induction es arbitrary: st) (simp_all add: step_shareCodeInput_digits)

lemma reachable_shareCodeInput_digits:
  "list_all is_ascii_digit (shareCodeInput (run es initial_workspace))"
  by (rule run_shareCodeInput_digits) (simp add: initial_workspace_def)

lemma load_request_digits:
  assumes "list_all is_ascii_digit (shareCodeInput st)"
  shows "load_request st =
     (if shareCodeInput st = [] then LoadAlert ''Please enter a 6-digit code.''
      else if is_code (shareCodeInput st) then ShareGet (shareCodeInput st)
      else LoadAlert ''Code must be 6 digits.'')"
  using assms by (auto simp: load_request_def js_trim_digits is_code_def)

lemma run_append: "run (es @ fs) st = run fs (run es st)"
  by (induction es arbitrary: st) simp_all

text \<open>Typing into the field leads from reachable states to reachable states.\<close>

lemma type_key_reachable:
  "\<exists>es'. type_key c (run es initial_workspace) = run es' initial_workspace"
proof (cases "length (shareCodeInput (run es initial_workspace)) < 6")
  case True
  let ?e = "ChangeShareCodeInput (shareCodeInput (run es initial_workspace) @ [c])"
  have "type_key c (run es initial_workspace) = run (es @ [?e]) initial_workspace"
    using True by (simp add: type_key_def run_append)
  then show ?thesis by blast
next
  case False
  then have "type_key c (run es initial_workspace) = run es initial_workspace"
    by (simp add: type_key_def)
  then show ?thesis by blast
qed

lemma type_text_reachable:
  "\<exists>es'. type_text s (run es initial_workspace) = run es' initial_workspace"
proof (induction s arbitrary: es)
  case Nil
  show ?case by auto
next
  case (Cons c cs)
  obtain es1 where "type_key c (run es initial_workspace) = run es1 initial_workspace"
    using type_key_reachable by blast
  with Cons.IH [of es1] show ?case by simp
qed

lemma load_request_wrong_length:
  "length (js_trim (shareCodeInput st)) \<noteq> 6 \<Longrightarrow> \<exists>msg. load_request st = LoadAlert msg"
  by (simp add: load_request_def Let_def)

text \<open>
  Claim C3, as stated, fails. The handler tests the trimmed field content for emptiness
  and for the length 6, never for digits: handed \<open>"abcdef"\<close> it sends the request. In
  the page the field keeps non-digits out, but what is typed is not what is tested:
  of \<open>"1234567"\<close> the field (\<open>maxLength\<close> 6) keeps \<open>"123456"\<close>, and the store is
  contacted with that code.
\<close>

theorem load_malformed_code_counterexample:
  "load_request (type_text ''1234567'' initial_workspace) = ShareGet ''123456'' \<and>
   \<not> is_code (js_trim ''1234567'') \<and>
   load_request (initial_workspace\<lparr>shareCodeInput := ''abcdef''\<rparr>) = ShareGet ''abcdef'' \<and>
   \<not> is_code (js_trim ''abcdef'')"
  by code_simp

text \<open>
  Claim C3, amended. For every content of the share-code field whose trimmed form is not
  exactly 6 characters long (the empty content included), loading by code stops at an
  alert: no request goes to the share store and the state is unchanged. The handler makes
  no digit test; the field's \<open>onChange\<close>, its only writer, deletes every character that
  is not a digit, so in every state reached through the page a field content that is not
  exactly 6 ASCII digits is rejected in the same way. Typing \<open>"12"\<close> or \<open>"abcdef"\<close> is
  rejected; typing \<open>"1234567"\<close> leaves \<open>"123456"\<close> in the field, which is sent.
\<close>

theorem load_rejects_by_length_and_filter:
  "(length (js_trim (shareCodeInput st)) \<noteq> 6 \<longrightarrow>
      (\<exists>msg. load_request st = LoadAlert msg) \<and> handleLoadShareCode r st = st) \<and>
   (\<not> is_code (js_trim (shareCodeInput (run es initial_workspace))) \<longrightarrow>
      (\<exists>msg. load_request (run es initial_workspace) = LoadAlert msg) \<and>
      handleLoadShareCode r (run es initial_workspace) = run es initial_workspace) \<and>
   load_request (type_text ''12'' initial_workspace) = LoadAlert ''Code must be 6 digits.'' \<and>
   load_request (type_text ''abcdef'' initial_workspace) =
     LoadAlert ''Please enter a 6-digit code.'' \<and>
   load_request (type_text ''1234567'' initial_workspace) = ShareGet ''123456''"
proof (intro conjI impI)
  assume "length (js_trim (shareCodeInput st)) \<noteq> 6"
  then show alert: "\<exists>msg. load_request st = LoadAlert msg"
    by (rule load_request_wrong_length)
  then show "handleLoadShareCode r st = st"
    by (auto simp: handleLoadShareCode_def)
next
  let ?st = "run es initial_workspace"
  have digits: "list_all is_ascii_digit (shareCodeInput ?st)"
    by (rule reachable_shareCodeInput_digits)
  assume "\<not> is_code (js_trim (shareCodeInput ?st))"
  then have bad: "\<not> is_code (shareCodeInput ?st)"
    using digits by (simp add: js_trim_digits)
  show alert: "\<exists>msg. load_request ?st = LoadAlert msg"
    using bad by (simp add: load_request_digits [OF digits])
  then show "handleLoadShareCode r ?st = ?st"
    by (auto simp: handleLoadShareCode_def)
next
  show "load_request (type_text ''12'' initial_workspace) = LoadAlert ''Code must be 6 digits.''"
    by code_simp
  show "load_request (type_text ''abcdef'' initial_workspace) =
     LoadAlert ''Please enter a 6-digit code.''"
    by code_simp
  show "load_request (type_text ''1234567'' initial_workspace) = ShareGet ''123456''"
    by code_simp
qed

theorem load_rejects_by_length_and_filter_witness:
  "length (js_trim (shareCodeInput (initial_workspace\<lparr>shareCodeInput := '' abcd ''\<rparr>))) \<noteq> 6 \<and>
   handleLoadShareCode (GetOk (Some ''ask'') (Some (AskContent (Some ''q'') (Some ''a''))))
     (initial_workspace\<lparr>shareCodeInput := '' abcd ''\<rparr>) =
   initial_workspace\<lparr>shareCodeInput := '' abcd ''\<rparr> \<and>
   \<not> is_code (js_trim (shareCodeInput (run [ChangeShareCodeInput ''12a45''] initial_workspace))) \<and>
   handleLoadShareCode (GetOk (Some ''ask'') (Some (AskContent (Some ''q'') (Some ''a''))))
     (run [ChangeShareCodeInput ''12a45''] initial_workspace) =
   run [ChangeShareCodeInput ''12a45''] initial_workspace"
proof -
  have h1: "length (js_trim (shareCodeInput
      (initial_workspace\<lparr>shareCodeInput := '' abcd ''\<rparr>))) \<noteq> 6"
    by code_simp
  have h2: "\<not> is_code (js_trim (shareCodeInput
      (run [ChangeShareCodeInput ''12a45''] initial_workspace)))"
    by code_simp
  show ?thesis
    using h1 h2
      load_rejects_by_length_and_filter [where st = "initial_workspace\<lparr>shareCodeInput := '' abcd ''\<rparr>"
        and es = "[ChangeShareCodeInput ''12a45'']"]
    by blast
qed

subsection \<open>The payload of a created share\<close>

text \<open>
  Claim C4, as stated, fails. The create path tests only that the answer is not blank;
  the question goes into the payload as the question box holds it. After an answer has
  arrived the user can clear the box, and the payload then has an empty question.
\<close>

theorem ask_payload_counterexample:
  "handleCreateShareCode ''ask''
     (run [SelectDocument (Some ''doc-1''), ChangeQuestion ''What is a stack?'',
           ClickAsk (AskOk ''A LIFO structure.''), ChangeQuestion '''']
        initial_workspace) =
   CreateSubmit \<lparr>p_type = ''ask'',
     p_content = AskContent (Some '''') (Some ''A LIFO structure.'')\<rparr> \<and>
   js_trim '''' = ''''"
  by code_simp

text \<open>
  Claim C4, amended. Every \<open>ask\<close> payload submitted by the create path carries the
  question and the answer of the state as strings, and its answer is non-empty after
  trimming; the question may be empty.
\<close>

theorem ask_payload_answer_nonempty:
  assumes "handleCreateShareCode ''ask'' st = CreateSubmit p"
  shows "p_type p = ''ask'' \<and>
         p_content p = AskContent (Some (question st)) (Some (answer st)) \<and>
         js_trim (answer st) \<noteq> []"
  using assms by (auto simp: handleCreateShareCode_def split: if_splits)

theorem ask_payload_answer_nonempty_witness:
  "handleCreateShareCode ''ask''
     (run [SelectDocument (Some ''doc-1''), ChangeQuestion ''What is a stack?'',
           ClickAsk (AskOk ''A LIFO structure.'')] initial_workspace) =
   CreateSubmit \<lparr>p_type = ''ask'',
     p_content = AskContent (Some ''What is a stack?'') (Some ''A LIFO structure.'')\<rparr> \<and>
   js_trim (answer (run [SelectDocument (Some ''doc-1''), ChangeQuestion ''What is a stack?'',
           ClickAsk (AskOk ''A LIFO structure.'')] initial_workspace)) \<noteq> []"
proof -
  let ?st = "run [SelectDocument (Some ''doc-1''), ChangeQuestion ''What is a stack?'',
           ClickAsk (AskOk ''A LIFO structure.'')] initial_workspace"
  have h: "handleCreateShareCode ''ask'' ?st =
    CreateSubmit \<lparr>p_type = ''ask'',
     p_content = AskContent (Some ''What is a stack?'') (Some ''A LIFO structure.'')\<rparr>"
    by code_simp
  show ?thesis using h ask_payload_answer_nonempty [OF h] by blast
qed

text \<open>
  Claim C5, as stated, fails. The client never checks a mark type: the payload carries
  \<open>summaryMarkTypeUsed || markType\<close>, and both are set from what the server sends (the
  \<open>mark_type\<close> of a \<open>/summarize\<close> reply, the \<open>mark_type\<close> of a loaded share). A loaded
  summary whose \<open>mark_type\<close> is \<open>"7"\<close> is shared again with \<open>"7"\<close>.
\<close>

theorem summary_mark_type_counterexample:
  "handleCreateShareCode ''summary''
     (run [ChangeShareCodeInput ''483920'',
           ClickLoadShare (GetOk (Some ''summary'')
             (Some (SummaryContent (Some ''Unit 2'') (Some ''Stacks are LIFO.'') (Some ''7''))))]
        initial_workspace) =
   CreateSubmit \<lparr>p_type = ''summary'',
     p_content = SummaryContent (Some ''Unit 2'') (Some ''Stacks are LIFO.'') (Some ''7'')\<rparr> \<and>
   \<not> valid_mark_type ''7''"
  by code_simp

lemma or_else_valid:
  "(case x of None \<Rightarrow> True | Some m \<Rightarrow> m = [] \<or> valid_mark_type m) \<Longrightarrow>
   valid_mark_type d \<Longrightarrow> valid_mark_type (or_else x d)"
  by (auto simp: or_else_def truthy_def split: option.splits)

lemma mark_literal_valid: "valid_mark_type (mark_literal b)"
  by (cases b) (simp_all add: valid_mark_type_def)

lemma apply_share_marks_inv:
  assumes "marks_inv st"
    and "case content_mark_type c of None \<Rightarrow> True | Some m \<Rightarrow> m = [] \<or> valid_mark_type m"
  shows "marks_inv (apply_share type c st)"
proof -
  have "valid_mark_type (or_else (content_mark_type c) ''2'')"
    using assms(2) by (rule or_else_valid) (simp add: valid_mark_type_def)
  then show ?thesis
    using assms(1) by (simp add: apply_share_def marks_inv_def Let_def)
qed

lemma handleLoadShareCode_marks_inv:
  assumes "marks_inv st" and "server_marks_ok (ClickLoadShare r)"
  shows "marks_inv (handleLoadShareCode r st)"
proof (cases r)
  case (GetOk type c)
  show ?thesis
  proof (cases c)
    case None
    with GetOk assms(1) show ?thesis
      by (simp add: handleLoadShareCode_def split: load_outcome.splits)
  next
    case (Some c')
    with GetOk assms(2)
    have "case content_mark_type c' of None \<Rightarrow> True | Some m \<Rightarrow> m = [] \<or> valid_mark_type m"
      by simp
    then have "marks_inv (apply_share (the type) c' st)"
      using assms(1) by (simp add: apply_share_marks_inv)
    with GetOk Some assms(1) show ?thesis
      by (simp add: handleLoadShareCode_def split: load_outcome.splits)
  qed
next
  case GetFailed
  with assms(1) show ?thesis
    by (simp add: handleLoadShareCode_def split: load_outcome.splits)
qed

lemma handleSummarize_marks_inv:
  assumes "marks_inv st" and "server_marks_ok (ClickSummarize r)"
  shows "marks_inv (handleSummarize r st)"
proof (cases r)
  case (SummarizeOk body mark)
  have "valid_mark_type (or_else mark (markType st))"
  proof (rule or_else_valid)
    show "case mark of None \<Rightarrow> True | Some m \<Rightarrow> m = [] \<or> valid_mark_type m"
      using assms(2) SummarizeOk by (cases mark) simp_all
    show "valid_mark_type (markType st)"
      using assms(1) by (simp add: marks_inv_def)
  qed
  with SummarizeOk assms(1) show ?thesis
    by (simp add: handleSummarize_def marks_inv_def)
next
  case (SummarizeNotOk d m)
  with assms(1) show ?thesis by (simp add: handleSummarize_def marks_inv_def)
next
  case SummarizeThrew
  with assms(1) show ?thesis by (simp add: handleSummarize_def marks_inv_def)
qed

lemma step_marks_inv:
  assumes "marks_inv st" and "server_marks_ok e"
  shows "marks_inv (step e st)"
proof (cases e)
  case (ClickSummarize r)
  with assms show ?thesis by (simp add: handleSummarize_marks_inv)
next
  case (ClickLoadShare r)
  with assms show ?thesis by (simp add: handleLoadShareCode_marks_inv)
next
  case (ClickMarkType b)
  with assms(1) show ?thesis by (simp add: marks_inv_def mark_literal_valid)
qed (insert assms(1), simp_all add: marks_inv_def handleAsk_def handleQuiz_def
      handleQuizAnswered_def handleResetQuiz_def)

lemma run_marks_inv:
  "marks_inv st \<Longrightarrow> \<forall>e \<in> set es. server_marks_ok e \<Longrightarrow> marks_inv (run es st)"
  by (induction es arbitrary: st) (simp_all add: step_marks_inv)

lemma initial_marks_inv: "marks_inv initial_workspace"
  by (simp add: marks_inv_def initial_workspace_def valid_mark_type_def)

text \<open>
  Claim C5, amended. The \<open>mark_type\<close> of a submitted \<open>summary\<close> payload is
  \<open>summaryMarkTypeUsed\<close> when that is set and not empty, and \<open>markType\<close> otherwise. It is
  one of \<open>"2"\<close>, \<open>"5"\<close>, \<open>"15"\<close> in every state reached by events in which each mark
  type received from the server was one of the three (or absent or empty).
\<close>

theorem summary_mark_type_from_valid_replies:
  assumes "\<forall>e \<in> set es. server_marks_ok e"
    and "handleCreateShareCode ''summary'' (run es initial_workspace) = CreateSubmit p"
  shows "\<exists>f s m. p_content p = SummaryContent f s (Some m) \<and> valid_mark_type m \<and>
           m = or_else (summaryMarkTypeUsed (run es initial_workspace))
                 (markType (run es initial_workspace))"
proof -
  let ?st = "run es initial_workspace"
  have inv: "marks_inv ?st"
    using initial_marks_inv assms(1) by (rule run_marks_inv)
  then have "valid_mark_type (or_else (summaryMarkTypeUsed ?st) (markType ?st))"
    by (auto simp: marks_inv_def or_else_def truthy_def split: option.splits)
  with assms(2) show ?thesis
    by (auto simp: handleCreateShareCode_def split: if_splits)
qed

theorem summary_mark_type_from_valid_replies_witness:
  "handleCreateShareCode ''summary''
     (run [ChangeShareCodeInput ''483920'',
           ClickLoadShare (GetOk (Some ''summary'')
             (Some (SummaryContent (Some ''Unit 2'') (Some ''Stacks are LIFO.'') (Some ''15''))))]
        initial_workspace) =
   CreateSubmit \<lparr>p_type = ''summary'',
     p_content = SummaryContent (Some ''Unit 2'') (Some ''Stacks are LIFO.'') (Some ''15'')\<rparr> \<and>
   valid_mark_type ''15''"
proof -
  let ?es = "[ChangeShareCodeInput ''483920'',
           ClickLoadShare (GetOk (Some ''summary'')
             (Some (SummaryContent (Some ''Unit 2'') (Some ''Stacks are LIFO.'') (Some ''15''))))]"
  let ?p = "\<lparr>p_type = ''summary'',
     p_content = SummaryContent (Some ''Unit 2'') (Some ''Stacks are LIFO.'') (Some ''15'')\<rparr>"
  have h1: "\<forall>e \<in> set ?es. server_marks_ok e"
    by (simp add: valid_mark_type_def)
  have h2: "handleCreateShareCode ''summary'' (run ?es initial_workspace) = CreateSubmit ?p"
    by code_simp
  from summary_mark_type_from_valid_replies [OF h1 h2]
  have "\<exists>f s m. p_content ?p = SummaryContent f s (Some m) \<and> valid_mark_type m"
    by blast
  then have "valid_mark_type ''15''" by simp
  with h2 show ?thesis by blast
qed

subsection \<open>The quiz statistics\<close>

lemma step_stats_inv: "stats_inv st \<Longrightarrow> stats_inv (step e st)"
  by (cases e)
    (auto simp: stats_inv_def handleAsk_def handleSummarize_def handleQuiz_def
      handleQuizAnswered_def handleResetQuiz_def handleLoadShareCode_def apply_share_def
      no_stats_def Let_def
      split: load_outcome.splits get_reply.splits option.splits summarize_reply.splits)

lemma run_stats_inv: "stats_inv st \<Longrightarrow> stats_inv (run es st)"
  by (induction es arbitrary: st) (simp_all add: step_stats_inv)

lemma reachable_stats_inv: "stats_inv (run es initial_workspace)"
  by (rule run_stats_inv) (simp add: stats_inv_def initial_workspace_def no_stats_def)

lemma Math_round_bounds:
  "0 \<le> x \<Longrightarrow> x \<le> 100 \<Longrightarrow> 0 \<le> Math_round x \<and> Math_round x \<le> 100"
  unfolding Math_round_def by (simp add: floor_le_iff le_floor_iff)

lemma quizAccuracy_bounds:
  assumes "mono dbl" "dbl 0 = 0" "dbl 1 = 1" "dbl 100 = 100" "stats_inv st"
  shows "0 \<le> quizAccuracy dbl st \<and> quizAccuracy dbl st \<le> 100"
proof (cases "answered (quizStats st) > 0")
  case False
  then show ?thesis by (simp add: quizAccuracy_def)
next
  case True
  let ?r = "of_nat (correct (quizStats st)) / of_nat (answered (quizStats st)) :: rat"
  have "0 \<le> ?r" by simp
  moreover have "?r \<le> 1" using True assms(5) by (simp add: stats_inv_def)
  ultimately have q: "0 \<le> dbl ?r" "dbl ?r \<le> 1"
    using assms(1-3) by (metis monoD)+
  then have "0 \<le> dbl ?r * 100" "dbl ?r * 100 \<le> 100" by simp_all
  then have "0 \<le> dbl (dbl ?r * 100)" "dbl (dbl ?r * 100) \<le> 100"
    using assms(1,2,4) by (metis monoD)+
  then show ?thesis using True by (simp add: quizAccuracy_def Math_round_bounds)
qed

text \<open>
  Claim C8. From the initial statistics \<open>{answered: 0, correct: 0}\<close>, every state reached
  by any sequence of events (answers, resets and all the others) has
  \<open>correct \<le> answered\<close>; both counters are natural numbers, so \<open>0 \<le> correct\<close>. The
  displayed accuracy is then an integer between 0 and 100, and it is 0 when \<open>answered\<close>
  is 0. The bound holds for every rounding \<open>dbl\<close> that is monotone and leaves 0, 1 and 100
  as they are, as rounding to the nearest double does.
\<close>

theorem quiz_stats_invariant:
  assumes "mono dbl" and "dbl 0 = 0" and "dbl 1 = 1" and "dbl 100 = 100"
  shows "correct (quizStats (run es initial_workspace)) \<le>
           answered (quizStats (run es initial_workspace)) \<and>
         0 \<le> quizAccuracy dbl (run es initial_workspace) \<and>
         quizAccuracy dbl (run es initial_workspace) \<le> 100 \<and>
         (answered (quizStats (run es initial_workspace)) = 0 \<longrightarrow>
            quizAccuracy dbl (run es initial_workspace) = 0)"
proof -
  have inv: "stats_inv (run es initial_workspace)" by (rule reachable_stats_inv)
  from quizAccuracy_bounds [OF assms inv] inv show ?thesis
    by (simp add: stats_inv_def quizAccuracy_def)
qed

theorem quiz_stats_invariant_witness:
  "mono (id :: rat \<Rightarrow> rat) \<and>
   quizStats (run [QuizAnswered True, QuizAnswered False, QuizAnswered True] initial_workspace) =
     \<lparr>answered = 3, correct = 2\<rparr> \<and>
   quizAccuracy id
     (run [QuizAnswered True, QuizAnswered False, QuizAnswered True] initial_workspace) = 67 \<and>
   answered (quizStats (run [QuizAnswered True, ClickResetQuiz] initial_workspace)) = 0 \<and>
   quizAccuracy id (run [QuizAnswered True, ClickResetQuiz] initial_workspace) = 0"
proof -
  have m: "mono (id :: rat \<Rightarrow> rat)" by (simp add: mono_def)
  have s: "quizStats (run [QuizAnswered True, QuizAnswered False, QuizAnswered True]
      initial_workspace) = \<lparr>answered = 3, correct = 2\<rparr>"
    by code_simp
  have a: "quizAccuracy id
     (run [QuizAnswered True, QuizAnswered False, QuizAnswered True] initial_workspace) = 67"
    by code_simp
  have z: "answered (quizStats (run [QuizAnswered True, ClickResetQuiz] initial_workspace)) = 0"
    by code_simp
  have "quizAccuracy id (run [QuizAnswered True, ClickResetQuiz] initial_workspace) = 0"
    using z quiz_stats_invariant [of id "[QuizAnswered True, ClickResetQuiz]", OF m]
    by simp
  with m s a z show ?thesis by blast
qed

section \<open>Properties of the share-code service\<close>

lemma digit_chars:
  "char_of (48::nat) = CHR ''0''" "char_of (49::nat) = CHR ''1''" "char_of (50::nat) = CHR ''2''"
  "char_of (51::nat) = CHR ''3''" "char_of (52::nat) = CHR ''4''" "char_of (53::nat) = CHR ''5''"
  "char_of (54::nat) = CHR ''6''" "char_of (55::nat) = CHR ''7''" "char_of (56::nat) = CHR ''8''"
  "char_of (57::nat) = CHR ''9''"
  by code_simp+

lemma mod_10_le_9: "(x::nat) mod 10 \<le> 9"
  by presburger

lemma code_of_is_code: "is_code (code_of n)"
  by (simp add: is_code_def code_of_def is_ascii_digit_def mod_10_le_9)

lemma validate_Inr: "validate type c = Inr c' \<Longrightarrow> c' = c"
  by (cases type; cases c) (auto split: option.splits if_splits)

lemma create_loop_first_free:
  assumes "0 < n" and "store (code_of (draw k)) = None"
    and "e_code (entry (code_of (draw k))) = code_of (draw k)"
  shows "create_loop n draw k store entry =
     (Inr (code_of (draw k), store(code_of (draw k) \<mapsto> entry (code_of (draw k)))), Suc k)"
  using assms by (cases n) (simp_all add: Let_def put_def)

lemma create_loop_attempts: "snd (create_loop n draw k store entry) \<le> k + n"
proof (induction n arbitrary: k)
  case 0
  show ?case by simp
next
  case (Suc n)
  have "snd (create_loop n draw (Suc k) store entry) \<le> Suc k + n" by (rule Suc.IH)
  then show ?case by (simp add: Let_def put_def)
qed

lemma create_loop_all_collide:
  "\<forall>j < n. store (code_of (draw (k + j))) \<noteq> None \<Longrightarrow>
   create_loop n draw k store entry = (Inl CapacityError, k + n)"
proof (induction n arbitrary: k)
  case 0
  then show ?case by simp
next
  case (Suc n)
  from Suc.prems have here: "store (code_of (draw k)) \<noteq> None"
    by (metis add.right_neutral zero_less_Suc)
  have "\<forall>j < n. store (code_of (draw (Suc k + j))) \<noteq> None"
  proof (intro allI impI)
    fix j assume "j < n"
    then have "Suc j < Suc n" by simp
    with Suc.prems have "store (code_of (draw (k + Suc j))) \<noteq> None" by blast
    then show "store (code_of (draw (Suc k + j))) \<noteq> None" by simp
  qed
  then have "create_loop n draw (Suc k) store entry = (Inl CapacityError, Suc k + n)"
    by (rule Suc.IH)
  with here show ?case by (simp add: Let_def)
qed

lemma create_loop_success:
  assumes "create_loop n draw k store entry = (Inr (code, store'), k')"
    and "\<And>c. e_code (entry c) = c"
  shows "is_code code \<and> store code = None \<and> store' = store(code \<mapsto> entry code) \<and>
         k' \<le> k + n"
  using assms(1)
proof (induction n arbitrary: k)
  case 0
  then show ?case by simp
next
  case (Suc n)
  show ?case
  proof (cases "store (code_of (draw k)) \<noteq> None")
    case True
    with Suc.prems have "create_loop n draw (Suc k) store entry = (Inr (code, store'), k')"
      by (simp add: Let_def)
    from Suc.IH [OF this] show ?thesis by simp
  next
    case False
    with Suc.prems assms(2) show ?thesis
      by (auto simp: Let_def put_def code_of_is_code)
  qed
qed

text \<open>
  Claim C2. Whenever \<open>create\<close> succeeds on a type and a content (so the content is valid
  for the type) and returns a code and the new store, \<open>get\<close> of that code on that store
  returns the type and a content equal to the one passed to \<open>create\<close>.
\<close>

theorem create_then_get:
  assumes "create draw now store type c = (Inr (code, store'), k)"
  shows "get store' code = Inr (type, c)"
proof -
  from assms obtain c' where v: "validate type c = Inr c'"
    by (auto simp: create_def split: sum.splits)
  then have c': "c' = c" by (rule validate_Inr)
  let ?entry = "\<lambda>code. \<lparr>e_code = code, e_type = type, e_content = c, e_created_at = now\<rparr>"
  from assms v c' have "create_loop MAX_ATTEMPTS draw 0 store ?entry = (Inr (code, store'), k)"
    by (simp add: create_def)
  then have "is_code code \<and> store' = store(code \<mapsto> ?entry code)"
    using create_loop_success [of MAX_ATTEMPTS draw 0 store ?entry code store' k] by simp
  with v c' show ?thesis
    by (simp add: get_def store_get_def)
qed

theorem create_then_get_witness:
  "create (plus 483920) 0 (map_of []) Ask
      (AskContent (Some ''What is a stack?'') (Some ''A LIFO structure.'')) =
     (Inr (''483920'', (map_of [])(''483920'' \<mapsto>
        \<lparr>e_code = ''483920'', e_type = Ask,
         e_content = AskContent (Some ''What is a stack?'') (Some ''A LIFO structure.''),
         e_created_at = 0\<rparr>)), 1) \<and>
   get ((map_of [])(''483920'' \<mapsto>
        \<lparr>e_code = ''483920'', e_type = Ask,
         e_content = AskContent (Some ''What is a stack?'') (Some ''A LIFO structure.''),
         e_created_at = 0\<rparr>)) ''483920'' =
     Inr (Ask, AskContent (Some ''What is a stack?'') (Some ''A LIFO structure.''))"
proof -
  have q: "js_trim ''What is a stack?'' \<noteq> []" by code_simp
  have a: "js_trim ''A LIFO structure.'' \<noteq> []" by code_simp
  have code: "code_of 483920 = ''483920''" by (simp add: code_of_def digit_chars)
  have h: "create (plus 483920) 0 (map_of []) Ask
      (AskContent (Some ''What is a stack?'') (Some ''A LIFO structure.'')) =
     (Inr (''483920'', (map_of [])(''483920'' \<mapsto>
        \<lparr>e_code = ''483920'', e_type = Ask,
         e_content = AskContent (Some ''What is a stack?'') (Some ''A LIFO structure.''),
         e_created_at = 0\<rparr>)), 1)"
    using q a code by (simp add: create_def create_loop_first_free MAX_ATTEMPTS_def)
  from h create_then_get [OF h] show ?thesis by blast
qed

text \<open>
  Claim C7. \<open>create\<close> is a total function: its loop recurses on the number of attempts
  left, so it returns for every store. It makes at most \<open>MAX_ATTEMPTS\<close> (20) draws, and
  when the content is valid and every one of the 20 draws collides with a stored code it
  returns CapacityError after exactly 20 draws.
\<close>

theorem create_attempts_bounded:
  "snd (create draw now store type c) \<le> MAX_ATTEMPTS \<and>
   (validate type c = Inr c \<and> (\<forall>k < MAX_ATTEMPTS. store (code_of (draw k)) \<noteq> None) \<longrightarrow>
      create draw now store type c = (Inl CapacityError, MAX_ATTEMPTS))"
proof (intro conjI impI)
  show "snd (create draw now store type c) \<le> MAX_ATTEMPTS"
    using create_loop_attempts [of MAX_ATTEMPTS draw 0 store]
    by (simp add: create_def split: sum.splits)
next
  assume h: "validate type c = Inr c \<and> (\<forall>k < MAX_ATTEMPTS. store (code_of (draw k)) \<noteq> None)"
  then have "\<forall>j < MAX_ATTEMPTS. store (code_of (draw (0 + j))) \<noteq> None" by simp
  from create_loop_all_collide [OF this] h
  show "create draw now store type c = (Inl CapacityError, MAX_ATTEMPTS)"
    by (simp add: create_def)
qed

theorem create_attempts_bounded_witness:
  "create (times 0) 0
     (map_of [(''000000'',
        \<lparr>e_code = ''000000'', e_type = Quiz, e_content = QuizContent None,
         e_created_at = 0\<rparr>)])
     Ask (AskContent (Some ''What is a stack?'') (Some ''A LIFO structure.'')) =
   (Inl CapacityError, 20)"
proof -
  let ?store = "map_of [(''000000'',
        \<lparr>e_code = ''000000'', e_type = Quiz, e_content = QuizContent None,
         e_created_at = 0\<rparr>)]"
  let ?c = "AskContent (Some ''What is a stack?'') (Some ''A LIFO structure.'')"
  have q: "js_trim ''What is a stack?'' \<noteq> []" by code_simp
  have a: "js_trim ''A LIFO structure.'' \<noteq> []" by code_simp
  have v: "validate Ask ?c = Inr ?c" using q a by simp
  have code: "code_of 0 = ''000000''" by (simp add: code_of_def digit_chars)
  have full: "\<forall>k < MAX_ATTEMPTS. ?store (code_of (times 0 k)) \<noteq> None"
    by (simp add: code)
  from create_attempts_bounded [of "times 0" 0 ?store Ask ?c] v full
  show ?thesis by (simp add: MAX_ATTEMPTS_def)
qed

section \<open>Properties of loadAuthFromStorage\<close>

text \<open>
  Claim C10, as stated, fails twice. It says the function never throws: when access to
  \<open>localStorage\<close> is denied, \<open>getItem\<close> throws inside the \<open>try\<close>, the \<open>catch\<close> block
  calls \<open>clearAuthFromStorage\<close> outside any \<open>try\<close>, \<open>removeItem\<close> throws again and
  the exception leaves the function. It says that with both keys present and a user
  string that parses the stored token is returned: the guard \<open>!token || !userStr\<close> is
  also true for a key present with the empty string, and with an empty token the function
  returns \<open>{token: null, user: null}\<close>.
\<close>

theorem loadAuth_throws_counterexample:
  "loadAuthFromStorage (map_of [(''{}'', JObj [])]) Denied = Inl SecurityError \<and>
   loadAuthFromStorage (map_of [(''{}'', JObj [])])
       (Accessible (map_of [(TOKEN_KEY, ''''), (USER_KEY, ''{}'')])) =
     Inr (\<lparr>token = None, user = JNull\<rparr>,
          Accessible (map_of [(TOKEN_KEY, ''''), (USER_KEY, ''{}'')])) \<and>
   map_of [(TOKEN_KEY, ''''), (USER_KEY, ''{}'')] TOKEN_KEY = Some '''' \<and>
   map_of [(TOKEN_KEY, ''''), (USER_KEY, ''{}'')] USER_KEY = Some ''{}'' \<and>
   map_of [(''{}'', JObj [])] ''{}'' = Some (JObj [])"
  by (simp add: loadAuthFromStorage_def loadAuth_try_def clearAuthFromStorage_def getItem_def
      removeItem_def TOKEN_KEY_def USER_KEY_def truthy_def)

text \<open>
  Claim C10, amended. Whenever \<open>localStorage\<close> can be accessed, \<open>loadAuthFromStorage\<close>
  returns without throwing, for every content of the storage and every outcome of
  \<open>JSON.parse\<close>. If the token key or the user key is absent or holds the empty string,
  it returns \<open>{token: null, user: null}\<close> and leaves the storage as it is. If both hold
  non-empty strings and parsing the user string fails, it removes both keys and returns
  \<open>{token: null, user: null}\<close>. If both hold non-empty strings and parsing succeeds, it
  returns the stored token with the parsed user and leaves the storage as it is.
\<close>

theorem loadAuthFromStorage_outcomes:
  "(\<exists>a ls'. loadAuthFromStorage JSON_parse (Accessible m) = Inr (a, Accessible ls')) \<and>
   (m TOKEN_KEY = None \<or> m TOKEN_KEY = Some [] \<or> m USER_KEY = None \<or> m USER_KEY = Some [] \<longrightarrow>
      loadAuthFromStorage JSON_parse (Accessible m) =
        Inr (\<lparr>token = None, user = JNull\<rparr>, Accessible m)) \<and>
   (m TOKEN_KEY = Some t \<and> t \<noteq> [] \<and> m USER_KEY = Some s \<and> s \<noteq> [] \<and> JSON_parse s = None \<longrightarrow>
      loadAuthFromStorage JSON_parse (Accessible m) =
        Inr (\<lparr>token = None, user = JNull\<rparr>,
             Accessible (m(TOKEN_KEY := None, USER_KEY := None)))) \<and>
   (m TOKEN_KEY = Some t \<and> t \<noteq> [] \<and> m USER_KEY = Some s \<and> s \<noteq> [] \<and> JSON_parse s = Some u \<longrightarrow>
      loadAuthFromStorage JSON_parse (Accessible m) =
        Inr (\<lparr>token = Some t, user = u\<rparr>, Accessible m))"
  by (auto simp: loadAuthFromStorage_def loadAuth_try_def clearAuthFromStorage_def getItem_def
      removeItem_def truthy_def split: option.splits)

theorem loadAuthFromStorage_outcomes_witness:
  "loadAuthFromStorage (map_of [(''{}'', JObj [])])
     (Accessible (map_of [(TOKEN_KEY, ''abc.def.ghi''), (USER_KEY, ''{}'')])) =
     Inr (\<lparr>token = Some ''abc.def.ghi'', user = JObj []\<rparr>,
          Accessible (map_of [(TOKEN_KEY, ''abc.def.ghi''), (USER_KEY, ''{}'')])) \<and>
   loadAuthFromStorage (map_of [(''{}'', JObj [])])
     (Accessible (map_of [(TOKEN_KEY, ''abc.def.ghi''), (USER_KEY, ''{bad'')])) =
     Inr (\<lparr>token = None, user = JNull\<rparr>,
          Accessible ((map_of [(TOKEN_KEY, ''abc.def.ghi''), (USER_KEY, ''{bad'')])
            (TOKEN_KEY := None, USER_KEY := None))) \<and>
   loadAuthFromStorage (map_of [(''{}'', JObj [])]) (Accessible (map_of [(USER_KEY, ''{}'')])) =
     Inr (\<lparr>token = None, user = JNull\<rparr>, Accessible (map_of [(USER_KEY, ''{}'')]))"
proof -
  let ?parse = "map_of [(''{}'', JObj [])]"
  let ?m1 = "map_of [(TOKEN_KEY, ''abc.def.ghi''), (USER_KEY, ''{}'')]"
  let ?m2 = "map_of [(TOKEN_KEY, ''abc.def.ghi''), (USER_KEY, ''{bad'')]"
  let ?m3 = "map_of [(USER_KEY, ''{}'')]"
  have keys: "TOKEN_KEY \<noteq> USER_KEY" "USER_KEY \<noteq> TOKEN_KEY"
    by (simp_all add: TOKEN_KEY_def USER_KEY_def)
  have a: "loadAuthFromStorage ?parse (Accessible ?m1) =
      Inr (\<lparr>token = Some ''abc.def.ghi'', user = JObj []\<rparr>, Accessible ?m1)"
    using loadAuthFromStorage_outcomes [where m = ?m1 and t = "''abc.def.ghi''"
        and s = "''{}''" and JSON_parse = ?parse and u = "JObj []"] keys
    by simp
  have b: "loadAuthFromStorage ?parse (Accessible ?m2) =
      Inr (\<lparr>token = None, user = JNull\<rparr>, Accessible (?m2(TOKEN_KEY := None, USER_KEY := None)))"
    using loadAuthFromStorage_outcomes [where m = ?m2 and t = "''abc.def.ghi''"
        and s = "''{bad''" and JSON_parse = ?parse] keys
    by simp
  have c: "loadAuthFromStorage ?parse (Accessible ?m3) =
      Inr (\<lparr>token = None, user = JNull\<rparr>, Accessible ?m3)"
    using loadAuthFromStorage_outcomes [where m = ?m3 and JSON_parse = ?parse] keys
    by simp
  from a b c show ?thesis by blast
qed

end
